theory Spec2Isabelle
  imports Complex_Main "HOL-Library.Multiset" "HOL-Library.AList"
begin

section \<open>Data model (models.py and the stored documents of main.py)\<close>

text \<open>
  Python floats are modelled as exact reals, datetimes as integer timestamps. An ObjectId is
  modelled by the lower-case hexadecimal text of its bytes, which is what \<open>str\<close> gives:
  24 digits for every identifier the store generates.
\<close>

type_synonym datetime = int

datatype oid = OID string

fun str_oid :: "oid \<Rightarrow> string" where
  "str_oid (OID s) = s"

definition is_hex :: "char \<Rightarrow> bool" where
  "is_hex c = (c \<in> set ''0123456789abcdefABCDEF'')"

definition hex_lower :: "char \<Rightarrow> char" where
  "hex_lower c =
     (if c = CHR ''A'' then CHR ''a'' else if c = CHR ''B'' then CHR ''b''
      else if c = CHR ''C'' then CHR ''c'' else if c = CHR ''D'' then CHR ''d''
      else if c = CHR ''E'' then CHR ''e'' else if c = CHR ''F'' then CHR ''f'' else c)"

text \<open>
  \<open>bytes.fromhex\<close>, as \<open>ObjectId\<close> uses it: ASCII whitespace (space, tab, line feed,
  vertical tab, form feed, carriage return) is skipped before each byte, the two digits of a
  byte are adjacent, and any other character raises (the value \<open>None\<close>). The bytes are
  returned as their lower-case hexadecimal text.
\<close>

definition is_space :: "char \<Rightarrow> bool" where
  "is_space c = (c \<in> set [CHR '' '', CHR 0x09, CHR 0x0A, CHR 0x0B, CHR 0x0C, CHR 0x0D])"

fun fromhex :: "string \<Rightarrow> string option" where
  "fromhex [] = Some []"
| "fromhex [c] = (if is_space c then Some [] else None)"
| "fromhex (c # d # cs) =
     (if is_space c then fromhex (d # cs)
      else if is_hex c \<and> is_hex d
           then (case fromhex cs of None \<Rightarrow> None
                 | Some bs \<Rightarrow> Some (hex_lower c # hex_lower d # bs))
           else None)"

text \<open>
  \<open>ObjectId(zakat_id)\<close> of bson on a text: the length must be 24 and \<open>bytes.fromhex\<close>
  must accept it; anything else raises (the value \<open>None\<close>). The length of the bytes is not
  checked, so a text of 24 characters with whitespace between its bytes is accepted and gives
  an identifier of fewer than 12 bytes; the identifiers the store generates have 12.
\<close>

definition ObjectId :: "string \<Rightarrow> oid option" where
  "ObjectId s =
     (if length s = 24
      then (case fromhex s of None \<Rightarrow> None | Some bs \<Rightarrow> Some (OID bs))
      else None)"

record UserCreate =
  uc_username :: string
  uc_email :: string
  uc_password :: string
  uc_full_name :: string

record UserResponse =
  ur_id :: string
  ur_username :: string
  ur_email :: string
  ur_full_name :: string
  ur_created_at :: datetime

record ZakatCreate =
  zc_amount :: real
  zc_category :: string
  zc_description :: "string option"
  zc_date :: "datetime option"

record ZakatUpdate =
  zu_amount :: "real option"
  zu_category :: "string option"
  zu_description :: "string option"
  zu_date :: "datetime option"

record ZakatResponse =
  zr_id :: string
  zr_amount :: real
  zr_category :: string
  zr_description :: "string option"
  zr_date :: datetime
  zr_zakat_amount :: real
  zr_user_id :: string

record Token =
  access_token :: string
  token_type :: string

record OAuth2PasswordRequestForm =
  form_username :: string
  form_password :: string

text \<open>The documents of the two collections, with the \<open>_id\<close> the store gives them.\<close>

record user_doc =
  ud_id :: oid
  ud_username :: string
  ud_email :: string
  ud_password :: string
  ud_full_name :: string
  ud_created_at :: datetime

record zakat_doc =
  zd_id :: oid
  zd_amount :: real
  zd_category :: string
  zd_description :: "string option"
  zd_date :: datetime
  zd_zakat_amount :: real
  zd_user_id :: string
  zd_created_at :: datetime

record db =
  users_collection :: "user_doc list"
  zakat_collection :: "zakat_doc list"

datatype HTTPException =
  HTTPException (status_code: nat) (detail: string) (headers: "(string \<times> string) list")

section \<open>The document store primitives used by the handlers\<close>

text \<open>A collection is the list of its documents in insertion order; a filter is a predicate.\<close>

definition find_one :: "('a \<Rightarrow> bool) \<Rightarrow> 'a list \<Rightarrow> 'a option" where
  "find_one flt coll = List.find flt coll"

definition find_many :: "('a \<Rightarrow> bool) \<Rightarrow> 'a list \<Rightarrow> 'a list" where
  "find_many flt coll = filter flt coll"

definition insert_one :: "'a \<Rightarrow> 'a list \<Rightarrow> 'a list" where
  "insert_one d coll = coll @ [d]"

fun update_one :: "('a \<Rightarrow> bool) \<Rightarrow> ('a \<Rightarrow> 'a) \<Rightarrow> 'a list \<Rightarrow> 'a list" where
  "update_one flt upd [] = []"
| "update_one flt upd (d # ds) = (if flt d then upd d # ds else d # update_one flt upd ds)"

text \<open>\<open>delete_one\<close> removes the first matching document and reports \<open>deleted_count\<close>.\<close>

fun delete_one :: "('a \<Rightarrow> bool) \<Rightarrow> 'a list \<Rightarrow> nat \<times> 'a list" where
  "delete_one flt [] = (0, [])"
| "delete_one flt (d # ds) =
     (if flt d then (1, ds) else (case delete_one flt ds of (n, ds') \<Rightarrow> (n, d # ds')))"

text \<open>\<open>.sort(key, -1)\<close>: descending by the key.\<close>

definition sort_descending :: "('a \<Rightarrow> 'k::linorder) \<Rightarrow> 'a list \<Rightarrow> 'a list" where
  "sort_descending key coll = rev (sort_key key coll)"

section \<open>Handlers of main.py\<close>

definition user_not_found :: HTTPException where
  "user_not_found = HTTPException 404 ''User not found'' []"

definition invalid_zakat_id :: HTTPException where
  "invalid_zakat_id = HTTPException 400 ''Invalid zakat ID'' []"

definition zakat_entry_not_found :: HTTPException where
  "zakat_entry_not_found = HTTPException 404 ''Zakat entry not found'' []"

definition incorrect_email_or_password :: HTTPException where
  "incorrect_email_or_password =
     HTTPException 401 ''Incorrect email or password'' [(''WWW-Authenticate'', ''Bearer'')]"

text \<open>An exception no handler catches (a \<open>TypeError\<close> on a missing document) is a 500.\<close>

definition internal_server_error :: HTTPException where
  "internal_server_error = HTTPException 500 ''Internal Server Error'' []"

definition user_response :: "user_doc \<Rightarrow> UserResponse" where
  "user_response d =
     \<lparr>ur_id = str_oid (ud_id d), ur_username = ud_username d, ur_email = ud_email d,
      ur_full_name = ud_full_name d, ur_created_at = ud_created_at d\<rparr>"

definition zakat_response :: "zakat_doc \<Rightarrow> ZakatResponse" where
  "zakat_response d =
     \<lparr>zr_id = str_oid (zd_id d), zr_amount = zd_amount d, zr_category = zd_category d,
      zr_description = zd_description d, zr_date = zd_date d,
      zr_zakat_amount = zd_zakat_amount d, zr_user_id = zd_user_id d\<rparr>"

text \<open>
  \<open>register\<close>. The password hash function of the absent module \<open>auth\<close> is the parameter
  \<open>get_password_hash\<close>; \<open>now\<close> is the clock reading and \<open>inserted_id\<close> the identifier the
  store gives the new document.
\<close>

definition register ::
  "(string \<Rightarrow> string) \<Rightarrow> UserCreate \<Rightarrow> datetime \<Rightarrow> oid \<Rightarrow> db \<Rightarrow> (HTTPException + UserResponse) \<times> db"
where
  "register get_password_hash user now inserted_id s =
     (case find_one (\<lambda>d. ud_email d = uc_email user) (users_collection s) of
        Some existing_user \<Rightarrow> (Inl (HTTPException 400 ''Email already registered'' []), s)
      | None \<Rightarrow>
          (case find_one (\<lambda>d. ud_username d = uc_username user) (users_collection s) of
             Some existing_username \<Rightarrow> (Inl (HTTPException 400 ''Username already taken'' []), s)
           | None \<Rightarrow>
               (let hashed_password = get_password_hash (uc_password user);
                    doc = \<lparr>ud_id = inserted_id, ud_username = uc_username user,
                           ud_email = uc_email user, ud_password = hashed_password,
                           ud_full_name = uc_full_name user, ud_created_at = now\<rparr>
                in (Inr (user_response doc),
                    s\<lparr>users_collection := insert_one doc (users_collection s)\<rparr>))))"

text \<open>
  \<open>login\<close>. \<open>verify_password\<close>, \<open>create_access_token\<close> (applied to the \<open>sub\<close> claim and
  the lifetime in minutes) and \<open>ACCESS_TOKEN_EXPIRE_MINUTES\<close> come from the absent module
  \<open>auth\<close> and are parameters.
\<close>

definition login ::
  "(string \<Rightarrow> string \<Rightarrow> bool) \<Rightarrow> (string \<Rightarrow> nat \<Rightarrow> string) \<Rightarrow> nat \<Rightarrow>
     OAuth2PasswordRequestForm \<Rightarrow> db \<Rightarrow> HTTPException + Token"
where
  "login verify_password create_access_token ACCESS_TOKEN_EXPIRE_MINUTES form_data s =
     (case find_one (\<lambda>d. ud_email d = form_username form_data) (users_collection s) of
        None \<Rightarrow> Inl incorrect_email_or_password
      | Some user \<Rightarrow>
          (if \<not> verify_password (form_password form_data) (ud_password user)
           then Inl incorrect_email_or_password
           else Inr \<lparr>access_token = create_access_token (ud_email user) ACCESS_TOKEN_EXPIRE_MINUTES,
                     token_type = ''bearer''\<rparr>))"

text \<open>
  The entry handlers receive the email that \<open>get_current_user_email\<close> resolved from the
  token. \<open>create_zakat_entry\<close> reads the clock twice: for the default date and for
  \<open>created_at\<close>.
\<close>

definition create_zakat_entry ::
  "ZakatCreate \<Rightarrow> string \<Rightarrow> datetime \<Rightarrow> datetime \<Rightarrow> oid \<Rightarrow> db \<Rightarrow> (HTTPException + ZakatResponse) \<times> db"
where
  "create_zakat_entry zakat email now_date now_created inserted_id s =
     (case find_one (\<lambda>d. ud_email d = email) (users_collection s) of
        None \<Rightarrow> (Inl user_not_found, s)
      | Some user \<Rightarrow>
          (let zakat_amount = zc_amount zakat * 0.025;
               doc = \<lparr>zd_id = inserted_id, zd_amount = zc_amount zakat,
                      zd_category = zc_category zakat, zd_description = zc_description zakat,
                      zd_date = (case zc_date zakat of Some d \<Rightarrow> d | None \<Rightarrow> now_date),
                      zd_zakat_amount = zakat_amount, zd_user_id = str_oid (ud_id user),
                      zd_created_at = now_created\<rparr>
           in (Inr (zakat_response doc),
               s\<lparr>zakat_collection := insert_one doc (zakat_collection s)\<rparr>)))"

definition get_zakat_entries :: "string \<Rightarrow> db \<Rightarrow> HTTPException + ZakatResponse list" where
  "get_zakat_entries email s =
     (case find_one (\<lambda>d. ud_email d = email) (users_collection s) of
        None \<Rightarrow> Inl user_not_found
      | Some user \<Rightarrow>
          (let entries = sort_descending zd_date
                 (find_many (\<lambda>d. zd_user_id d = str_oid (ud_id user)) (zakat_collection s))
           in Inr (map zakat_response entries)))"

definition get_zakat_entry :: "string \<Rightarrow> string \<Rightarrow> db \<Rightarrow> HTTPException + ZakatResponse" where
  "get_zakat_entry zakat_id email s =
     (case find_one (\<lambda>d. ud_email d = email) (users_collection s) of
        None \<Rightarrow> Inl user_not_found
      | Some user \<Rightarrow>
          (case ObjectId zakat_id of
             None \<Rightarrow> Inl invalid_zakat_id
           | Some i \<Rightarrow>
               (case find_one (\<lambda>d. zd_id d = i \<and> zd_user_id d = str_oid (ud_id user))
                       (zakat_collection s) of
                  None \<Rightarrow> Inl zakat_entry_not_found
                | Some entry \<Rightarrow> Inr (zakat_response entry))))"

text \<open>The dictionary \<open>update_data\<close> of \<open>update_zakat_entry\<close>, as the list of its assignments.\<close>

datatype field_update =
  SetAmount real | SetZakatAmount real | SetCategory string | SetDescription string
  | SetDate datetime

definition update_data :: "ZakatUpdate \<Rightarrow> field_update list" where
  "update_data zakat =
     (case zu_amount zakat of Some a \<Rightarrow> [SetAmount a, SetZakatAmount (a * 0.025)] | None \<Rightarrow> [])
     @ (case zu_category zakat of Some c \<Rightarrow> [SetCategory c] | None \<Rightarrow> [])
     @ (case zu_description zakat of Some t \<Rightarrow> [SetDescription t] | None \<Rightarrow> [])
     @ (case zu_date zakat of Some d \<Rightarrow> [SetDate d] | None \<Rightarrow> [])"

fun set_field :: "zakat_doc \<Rightarrow> field_update \<Rightarrow> zakat_doc" where
  "set_field d (SetAmount a) = d\<lparr>zd_amount := a\<rparr>"
| "set_field d (SetZakatAmount z) = d\<lparr>zd_zakat_amount := z\<rparr>"
| "set_field d (SetCategory c) = d\<lparr>zd_category := c\<rparr>"
| "set_field d (SetDescription t) = d\<lparr>zd_description := Some t\<rparr>"
| "set_field d (SetDate t) = d\<lparr>zd_date := t\<rparr>"

text \<open>The update operator \<open>$set\<close>.\<close>

definition dollar_set :: "field_update list \<Rightarrow> zakat_doc \<Rightarrow> zakat_doc" where
  "dollar_set upds d = foldl set_field d upds"

definition update_zakat_entry ::
  "string \<Rightarrow> ZakatUpdate \<Rightarrow> string \<Rightarrow> db \<Rightarrow> (HTTPException + ZakatResponse) \<times> db"
where
  "update_zakat_entry zakat_id zakat email s =
     (case find_one (\<lambda>d. ud_email d = email) (users_collection s) of
        None \<Rightarrow> (Inl user_not_found, s)
      | Some user \<Rightarrow>
          (case ObjectId zakat_id of
             None \<Rightarrow> (Inl invalid_zakat_id, s)
           | Some i \<Rightarrow>
               (case find_one (\<lambda>d. zd_id d = i \<and> zd_user_id d = str_oid (ud_id user))
                       (zakat_collection s) of
                  None \<Rightarrow> (Inl zakat_entry_not_found, s)
                | Some existing_entry \<Rightarrow>
                    (let s' = (if update_data zakat \<noteq> []
                               then s\<lparr>zakat_collection :=
                                      update_one (\<lambda>d. zd_id d = i) (dollar_set (update_data zakat))
                                        (zakat_collection s)\<rparr>
                               else s)
                     in (case find_one (\<lambda>d. zd_id d = i) (zakat_collection s') of
                           None \<Rightarrow> (Inl internal_server_error, s')
                         | Some updated_entry \<Rightarrow> (Inr (zakat_response updated_entry), s'))))))"

definition delete_zakat_entry :: "string \<Rightarrow> string \<Rightarrow> db \<Rightarrow> (HTTPException + unit) \<times> db" where
  "delete_zakat_entry zakat_id email s =
     (case find_one (\<lambda>d. ud_email d = email) (users_collection s) of
        None \<Rightarrow> (Inl user_not_found, s)
      | Some user \<Rightarrow>
          (case ObjectId zakat_id of
             None \<Rightarrow> (Inl invalid_zakat_id, s)
           | Some i \<Rightarrow>
               (case delete_one (\<lambda>d. zd_id d = i \<and> zd_user_id d = str_oid (ud_id user))
                       (zakat_collection s) of
                  (deleted_count, remaining) \<Rightarrow>
                    (if deleted_count = 0 then (Inl zakat_entry_not_found, s)
                     else (Inr (), s\<lparr>zakat_collection := remaining\<rparr>)))))"

text \<open>
  \<open>get_zakat_statistics\<close>. The dictionary \<open>category_stats\<close> is an association list in
  insertion order; one round of the loop is \<open>category_step\<close>.
\<close>

record category_stat =
  cs_count :: nat
  cs_total_amount :: real
  cs_total_zakat :: real

record statistics =
  total_amount :: real
  total_zakat :: real
  total_entries :: nat
  category_breakdown :: "(string \<times> category_stat) list"

definition category_step ::
  "(string \<times> category_stat) list \<Rightarrow> zakat_doc \<Rightarrow> (string \<times> category_stat) list"
where
  "category_step category_stats entry =
     (let category = zd_category entry;
          stats1 = (if category \<notin> fst ` set category_stats
                    then AList.update category
                           \<lparr>cs_count = 0, cs_total_amount = 0, cs_total_zakat = 0\<rparr> category_stats
                    else category_stats)
      in (case map_of stats1 category of
            None \<Rightarrow> stats1
          | Some c \<Rightarrow>
              AList.update category
                \<lparr>cs_count = cs_count c + 1,
                 cs_total_amount = cs_total_amount c + zd_amount entry,
                 cs_total_zakat = cs_total_zakat c + zd_zakat_amount entry\<rparr> stats1))"

definition get_zakat_statistics :: "string \<Rightarrow> db \<Rightarrow> HTTPException + statistics" where
  "get_zakat_statistics email s =
     (case find_one (\<lambda>d. ud_email d = email) (users_collection s) of
        None \<Rightarrow> Inl user_not_found
      | Some user \<Rightarrow>
          (let entries = find_many (\<lambda>d. zd_user_id d = str_oid (ud_id user)) (zakat_collection s)
           in Inr \<lparr>total_amount = sum_list (map zd_amount entries),
                   total_zakat = sum_list (map zd_zakat_amount entries),
                   total_entries = length entries,
                   category_breakdown = foldl category_step [] entries\<rparr>))"

section \<open>Sequences of requests\<close>

text \<open>The requests that write to the store, with the clock readings and identifiers they
  consume, and the store after a sequence of them.\<close>

datatype request =
  Register UserCreate datetime oid
  | CreateZakat ZakatCreate string datetime datetime oid
  | UpdateZakat string ZakatUpdate string
  | DeleteZakat string string

fun handle :: "(string \<Rightarrow> string) \<Rightarrow> db \<Rightarrow> request \<Rightarrow> db" where
  "handle h s (Register user now i) = snd (register h user now i s)"
| "handle h s (CreateZakat zakat email now_date now_created i) =
     snd (create_zakat_entry zakat email now_date now_created i s)"
| "handle h s (UpdateZakat zakat_id zakat email) = snd (update_zakat_entry zakat_id zakat email s)"
| "handle h s (DeleteZakat zakat_id email) = snd (delete_zakat_entry zakat_id email s)"

definition run :: "(string \<Rightarrow> string) \<Rightarrow> request list \<Rightarrow> db \<Rightarrow> db" where
  "run h reqs s = foldl (handle h) s reqs"

definition obligation_invariant :: "db \<Rightarrow> bool" where
  "obligation_invariant s =
     list_all (\<lambda>d. zd_zakat_amount d = zd_amount d * 0.025) (zakat_collection s)"

section \<open>A concrete scenario\<close>

text \<open>Two registered users; Alice records the three entries of the aggregation example and
  Bob one entry of his own. \<open>toy_hash\<close> and \<open>toy_verify\<close> stand for the password functions,
  \<open>toy_token\<close> for the token issuer.\<close>

definition toy_hash :: "string \<Rightarrow> string" where
  "toy_hash p = ''h:'' @ p"

definition toy_verify :: "string \<Rightarrow> string \<Rightarrow> bool" where
  "toy_verify p h = (h = toy_hash p)"

definition toy_token :: "string \<Rightarrow> nat \<Rightarrow> string" where
  "toy_token sub minutes = ''token:'' @ sub"

definition alice :: UserCreate where
  "alice = \<lparr>uc_username = ''alice'', uc_email = ''alice@example.com'', uc_password = ''pw-a'',
            uc_full_name = ''Alice A''\<rparr>"

definition bob :: UserCreate where
  "bob = \<lparr>uc_username = ''bob'', uc_email = ''bob@example.com'', uc_password = ''pw-b'',
          uc_full_name = ''Bob B''\<rparr>"

definition alice_id :: string where
  "alice_id = ''aaaaaaaaaaaaaaaaaaaaaaaa''"

definition bob_id :: string where
  "bob_id = ''bbbbbbbbbbbbbbbbbbbbbbbb''"

definition entry_id :: "char \<Rightarrow> string" where
  "entry_id c = ''00000000000000000000000'' @ [c]"

definition empty_db :: db where
  "empty_db = \<lparr>users_collection = [], zakat_collection = []\<rparr>"

definition two_users :: db where
  "two_users = run toy_hash [Register alice 10 (OID alice_id), Register bob 11 (OID bob_id)] empty_db"

definition new_entry :: "real \<Rightarrow> string \<Rightarrow> ZakatCreate" where
  "new_entry a c = \<lparr>zc_amount = a, zc_category = c, zc_description = None, zc_date = None\<rparr>"

definition example_requests :: "request list" where
  "example_requests =
     [CreateZakat (new_entry 100 ''Cash'') ''alice@example.com'' 20 21 (OID (entry_id CHR ''1'')),
      CreateZakat (new_entry 200 ''Cash'') ''alice@example.com'' 30 31 (OID (entry_id CHR ''2'')),
      CreateZakat (new_entry 70 ''Silver'') ''bob@example.com'' 40 41 (OID (entry_id CHR ''3'')),
      CreateZakat (new_entry 50 ''Gold'') ''alice@example.com'' 25 26 (OID (entry_id CHR ''4''))]"

definition example_db :: db where
  "example_db = run toy_hash example_requests two_users"

definition no_update :: ZakatUpdate where
  "no_update = \<lparr>zu_amount = None, zu_category = None, zu_description = None, zu_date = None\<rparr>"

definition amount_update :: "real \<Rightarrow> ZakatUpdate" where
  "amount_update a = no_update\<lparr>zu_amount := Some a\<rparr>"

definition category_update :: "string \<Rightarrow> ZakatUpdate" where
  "category_update c = no_update\<lparr>zu_category := Some c\<rparr>"

text \<open>The figures a category breakdown is compared with: the count, amount sum and obligation
  sum of exactly the entries that bear the label.\<close>

definition category_totals :: "string \<Rightarrow> zakat_doc list \<Rightarrow> category_stat" where
  "category_totals c entries =
     \<lparr>cs_count = length (filter (\<lambda>d. zd_category d = c) entries),
      cs_total_amount = sum_list (map zd_amount (filter (\<lambda>d. zd_category d = c) entries)),
      cs_total_zakat = sum_list (map zd_zakat_amount (filter (\<lambda>d. zd_category d = c) entries))\<rparr>"

section \<open>Facts about the store primitives and the handlers\<close>

lemma find_one_SomeD: "find_one p xs = Some x \<Longrightarrow> x \<in> set xs \<and> p x"
  by (auto simp: find_one_def find_Some_iff)

lemma find_one_None_iff: "find_one p xs = None \<longleftrightarrow> (\<forall>x\<in>set xs. \<not> p x)"
  by (auto simp: find_one_def find_None_iff)

lemma list_all_update_one:
  "list_all P xs \<Longrightarrow> (\<And>d. P d \<Longrightarrow> P (upd d)) \<Longrightarrow> list_all P (update_one flt upd xs)"
  by (induction xs) auto

lemma list_all_delete_one: "list_all P xs \<Longrightarrow> list_all P (snd (delete_one flt xs))"
  by (induction xs) (auto split: prod.splits)

lemma dollar_set_update_data:
  "dollar_set (update_data z) d =
     d\<lparr>zd_amount := (case zu_amount z of Some a \<Rightarrow> a | None \<Rightarrow> zd_amount d),
       zd_zakat_amount := (case zu_amount z of Some a \<Rightarrow> a * 0.025 | None \<Rightarrow> zd_zakat_amount d),
       zd_category := (case zu_category z of Some c \<Rightarrow> c | None \<Rightarrow> zd_category d),
       zd_description := (case zu_description z of Some t \<Rightarrow> Some t | None \<Rightarrow> zd_description d),
       zd_date := (case zu_date z of Some t \<Rightarrow> t | None \<Rightarrow> zd_date d)\<rparr>"
  by (simp add: dollar_set_def update_data_def split: option.splits)

lemma inv_register: "obligation_invariant s \<Longrightarrow> obligation_invariant (snd (register h u n i s))"
  by (simp add: obligation_invariant_def register_def Let_def split: option.splits)

lemma inv_create:
  "obligation_invariant s \<Longrightarrow> obligation_invariant (snd (create_zakat_entry z e n1 n2 i s))"
  by (simp add: obligation_invariant_def create_zakat_entry_def Let_def insert_one_def
      split: option.splits)

lemma inv_update:
  "obligation_invariant s \<Longrightarrow> obligation_invariant (snd (update_zakat_entry zid z e s))"
  unfolding obligation_invariant_def update_zakat_entry_def Let_def
  by (auto split: option.splits intro!: list_all_update_one
      simp: dollar_set_update_data)

lemma list_all_delete_one':
  "delete_one flt xs = (n, ys) \<Longrightarrow> list_all P xs \<Longrightarrow> list_all P ys"
  using list_all_delete_one[of P xs flt] by simp

lemma delete_preserves:
  "list_all P (zakat_collection s) \<Longrightarrow>
   list_all P (zakat_collection (snd (delete_zakat_entry zid e s)))"
  unfolding delete_zakat_entry_def
  by (auto split: option.splits prod.splits dest: list_all_delete_one')

lemma inv_delete:
  "obligation_invariant s \<Longrightarrow> obligation_invariant (snd (delete_zakat_entry zid e s))"
  unfolding obligation_invariant_def by (rule delete_preserves)

lemma inv_handle: "obligation_invariant s \<Longrightarrow> obligation_invariant (handle h s r)"
  by (cases r) (simp_all add: inv_register inv_create inv_update inv_delete)

lemma inv_run: "obligation_invariant s \<Longrightarrow> obligation_invariant (run h reqs s)"
  unfolding run_def by (induction reqs arbitrary: s) (simp_all add: inv_handle)

lemma map_update_one:
  "(\<And>d. f (upd d) = f d) \<Longrightarrow> map f (update_one flt upd xs) = map f xs"
  by (induction xs) auto

lemma find_one_update_one:
  "(\<And>d. p d \<Longrightarrow> p (upd d)) \<Longrightarrow>
   find_one p (update_one p upd xs) = map_option upd (find_one p xs)"
  by (induction xs) (auto simp: find_one_def)

lemma update_data_empty_iff:
  "update_data z = [] \<longleftrightarrow>
     zu_amount z = None \<and> zu_category z = None \<and> zu_description z = None \<and> zu_date z = None"
  by (auto simp: update_data_def split: option.splits)

lemma zd_id_dollar_set: "zd_id (dollar_set (update_data z) d) = zd_id d"
  by (simp add: dollar_set_update_data)

text \<open>The outcome of a successful update, in terms of the first document with the id.\<close>

lemma update_zakat_entry_Inr:
  assumes "fst (update_zakat_entry zid z e s) = Inr r"
  shows "\<exists>i d. ObjectId zid = Some i \<and> find_one (\<lambda>d. zd_id d = i) (zakat_collection s) = Some d
           \<and> r = zakat_response (dollar_set (update_data z) d)"
proof -
  from assms obtain u where u: "find_one (\<lambda>d. ud_email d = e) (users_collection s) = Some u"
    by (cases "find_one (\<lambda>d. ud_email d = e) (users_collection s)")
       (auto simp: update_zakat_entry_def)
  from assms u obtain i where i: "ObjectId zid = Some i"
    by (cases "ObjectId zid") (auto simp: update_zakat_entry_def)
  from assms u i obtain x where
    x: "find_one (\<lambda>d. zd_id d = i \<and> zd_user_id d = str_oid (ud_id u)) (zakat_collection s) = Some x"
    by (cases "find_one (\<lambda>d. zd_id d = i \<and> zd_user_id d = str_oid (ud_id u)) (zakat_collection s)")
       (auto simp: update_zakat_entry_def)
  from x have "x \<in> set (zakat_collection s)" "zd_id x = i"
    using find_one_SomeD[OF x] by auto
  then have "find_one (\<lambda>d. zd_id d = i) (zakat_collection s) \<noteq> None"
    by (auto simp: find_one_None_iff)
  then obtain d where d: "find_one (\<lambda>d. zd_id d = i) (zakat_collection s) = Some d" by auto
  show ?thesis
  proof (cases "update_data z = []")
    case True
    then have "dollar_set (update_data z) d = d" by (simp add: dollar_set_def)
    with assms i d True show ?thesis
      by (auto simp: update_zakat_entry_def Let_def split: option.splits)
  next
    case False
    have "find_one (\<lambda>d. zd_id d = i)
            (update_one (\<lambda>d. zd_id d = i) (dollar_set (update_data z)) (zakat_collection s))
          = Some (dollar_set (update_data z) d)"
      by (subst find_one_update_one) (simp_all add: zd_id_dollar_set d)
    with assms i d False show ?thesis
      by (auto simp: update_zakat_entry_def Let_def split: option.splits)
  qed
qed

lemma update_keeps_zakat_amounts:
  assumes "zu_amount z = None"
  shows "map zd_zakat_amount (zakat_collection (snd (update_zakat_entry zid z e s)))
         = map zd_zakat_amount (zakat_collection s)"
proof -
  have "map zd_zakat_amount (update_one flt (dollar_set (update_data z)) xs)
        = map zd_zakat_amount xs" for flt xs
    by (rule map_update_one) (simp add: dollar_set_update_data assms)
  then show ?thesis
    by (auto simp: update_zakat_entry_def Let_def split: option.splits)
qed


section \<open>The scenario, evaluated\<close>

lemma two_users_eq:
  "two_users =
     \<lparr>users_collection =
        [\<lparr>ud_id = OID alice_id, ud_username = ''alice'', ud_email = ''alice@example.com'',
          ud_password = ''h:pw-a'', ud_full_name = ''Alice A'', ud_created_at = 10\<rparr>,
         \<lparr>ud_id = OID bob_id, ud_username = ''bob'', ud_email = ''bob@example.com'',
          ud_password = ''h:pw-b'', ud_full_name = ''Bob B'', ud_created_at = 11\<rparr>],
      zakat_collection = []\<rparr>"
  by (simp add: two_users_def run_def register_def find_one_def insert_one_def alice_def bob_def
      empty_db_def toy_hash_def Let_def)

lemma example_db_eq:
  "example_db =
     \<lparr>users_collection = users_collection two_users,
      zakat_collection =
        [\<lparr>zd_id = OID (entry_id CHR ''1''), zd_amount = 100, zd_category = ''Cash'',
          zd_description = None, zd_date = 20, zd_zakat_amount = 2.5, zd_user_id = alice_id,
          zd_created_at = 21\<rparr>,
         \<lparr>zd_id = OID (entry_id CHR ''2''), zd_amount = 200, zd_category = ''Cash'',
          zd_description = None, zd_date = 30, zd_zakat_amount = 5, zd_user_id = alice_id,
          zd_created_at = 31\<rparr>,
         \<lparr>zd_id = OID (entry_id CHR ''3''), zd_amount = 70, zd_category = ''Silver'',
          zd_description = None, zd_date = 40, zd_zakat_amount = 1.75, zd_user_id = bob_id,
          zd_created_at = 41\<rparr>,
         \<lparr>zd_id = OID (entry_id CHR ''4''), zd_amount = 50, zd_category = ''Gold'',
          zd_description = None, zd_date = 25, zd_zakat_amount = 1.25, zd_user_id = alice_id,
          zd_created_at = 26\<rparr>]\<rparr>"
  by (simp add: example_db_def example_requests_def run_def create_zakat_entry_def find_one_def
      insert_one_def two_users_eq new_entry_def Let_def)


lemma ObjectId_entry_id [simp]:
  "c \<in> set ''0123456789'' \<Longrightarrow> ObjectId (entry_id c) = Some (OID (entry_id c))"
  by (auto simp: ObjectId_def entry_id_def is_hex_def hex_lower_def is_space_def)

lemma entry_id_eq [simp]: "entry_id a = entry_id b \<longleftrightarrow> a = b"
  by (simp add: entry_id_def)

lemmas scenario_simps =
  example_db_eq two_users_eq find_one_def find_many_def insert_one_def Let_def new_entry_def
  no_update_def amount_update_def category_update_def update_data_def dollar_set_def
  zakat_response_def user_response_def alice_id_def bob_id_def

section \<open>C1: the stored obligation is the amount times the fixed rate\<close>

text \<open>
  C1. From any store in which every entry has \<open>zakat_amount = amount * 0.025\<close> (the empty
  store is one), every sequence of register, create, update and delete requests leads to a
  store with the same property. A created entry is returned with the obligation computed from
  the supplied amount; an update that supplies an amount returns the entry with that amount and
  the recomputed obligation; an update that supplies no amount leaves every stored obligation
  as it was.
\<close>

theorem obligation_is_rate_times_amount:
  assumes "obligation_invariant s"
  shows "(\<forall>d \<in> set (zakat_collection (run h reqs s)). zd_zakat_amount d = zd_amount d * 0.025)
    \<and> (\<forall>r. fst (create_zakat_entry z e n1 n2 i s) = Inr r \<longrightarrow>
            zr_amount r = zc_amount z \<and> zr_zakat_amount r = zc_amount z * 0.025)
    \<and> (\<forall>r a. fst (update_zakat_entry zid zu e s) = Inr r \<and> zu_amount zu = Some a \<longrightarrow>
            zr_amount r = a \<and> zr_zakat_amount r = a * 0.025)
    \<and> (zu_amount zu = None \<longrightarrow>
          map zd_zakat_amount (zakat_collection (snd (update_zakat_entry zid zu e s)))
          = map zd_zakat_amount (zakat_collection s))"
proof (intro conjI)
  have "obligation_invariant (run h reqs s)" using assms by (rule inv_run)
  then show "\<forall>d \<in> set (zakat_collection (run h reqs s)). zd_zakat_amount d = zd_amount d * 0.025"
    unfolding obligation_invariant_def list_all_iff .
next
  show "\<forall>r. fst (create_zakat_entry z e n1 n2 i s) = Inr r \<longrightarrow>
            zr_amount r = zc_amount z \<and> zr_zakat_amount r = zc_amount z * 0.025"
    by (auto simp: create_zakat_entry_def zakat_response_def Let_def split: option.splits)
next
  show "\<forall>r a. fst (update_zakat_entry zid zu e s) = Inr r \<and> zu_amount zu = Some a \<longrightarrow>
            zr_amount r = a \<and> zr_zakat_amount r = a * 0.025"
  proof (intro allI impI)
    fix r a assume h: "fst (update_zakat_entry zid zu e s) = Inr r \<and> zu_amount zu = Some a"
    then obtain d where "r = zakat_response (dollar_set (update_data zu) d)"
      using update_zakat_entry_Inr by blast
    with h show "zr_amount r = a \<and> zr_zakat_amount r = a * 0.025"
      by (simp add: dollar_set_update_data zakat_response_def)
  qed
next
  show "zu_amount zu = None \<longrightarrow>
          map zd_zakat_amount (zakat_collection (snd (update_zakat_entry zid zu e s)))
          = map zd_zakat_amount (zakat_collection s)"
    by (simp add: update_keeps_zakat_amounts)
qed

text \<open>The theorem at the scenario: an update, a deletion, a creation.\<close>

theorem obligation_is_rate_times_amount_witness:
  "obligation_invariant example_db
   \<and> map (\<lambda>d. (zd_amount d, zd_zakat_amount d))
        (zakat_collection
          (run toy_hash [UpdateZakat (entry_id CHR ''2'') (amount_update 400) ''alice@example.com'',
                         DeleteZakat (entry_id CHR ''1'') ''alice@example.com''] example_db))
       = [(400, 10), (70, 1.75), (50, 1.25)]
   \<and> (\<exists>r. fst (create_zakat_entry (new_entry 1000 ''Cash'') ''alice@example.com'' 50 51
                  (OID (entry_id CHR ''5'')) example_db) = Inr r
          \<and> zr_amount r = 1000 \<and> zr_zakat_amount r = 25)
   \<and> (\<exists>r. fst (update_zakat_entry (entry_id CHR ''2'') (amount_update 400) ''alice@example.com''
                  example_db) = Inr r
          \<and> zu_amount (amount_update 400) = Some 400 \<and> zr_amount r = 400 \<and> zr_zakat_amount r = 10)"
proof -
  have a: "obligation_invariant example_db"
    by (simp add: obligation_invariant_def example_db_eq)
  have b: "\<exists>r. fst (create_zakat_entry (new_entry 1000 ''Cash'') ''alice@example.com'' 50 51
                  (OID (entry_id CHR ''5'')) example_db) = Inr r"
    by (simp add: create_zakat_entry_def scenario_simps)
  have c: "\<exists>r. fst (update_zakat_entry (entry_id CHR ''2'') (amount_update 400) ''alice@example.com''
                  example_db) = Inr r"
    by (simp add: update_zakat_entry_def scenario_simps)
  have d: "zu_amount (amount_update 400) = Some 400"
    by (simp add: amount_update_def)
  have e: "map (\<lambda>d. (zd_amount d, zd_zakat_amount d))
        (zakat_collection
          (run toy_hash [UpdateZakat (entry_id CHR ''2'') (amount_update 400) ''alice@example.com'',
                         DeleteZakat (entry_id CHR ''1'') ''alice@example.com''] example_db))
       = [(400, 10), (70, 1.75), (50, 1.25)]"
    by (simp add: run_def update_zakat_entry_def delete_zakat_entry_def scenario_simps)
  from a b c d e
    obligation_is_rate_times_amount[OF a, of toy_hash
      "[UpdateZakat (entry_id CHR ''2'') (amount_update 400) ''alice@example.com'',
        DeleteZakat (entry_id CHR ''1'') ''alice@example.com'']" "new_entry 1000 ''Cash''"
      "''alice@example.com''" 50 51 "OID (entry_id CHR ''5'')" "entry_id CHR ''2''" "amount_update 400"]
  show ?thesis by (auto simp: new_entry_def)
qed

section \<open>C2: the statistics are the sums over the caller's entries\<close>

lemma category_step_lookup:
  "map_of (category_step acc e) c =
     (if c = zd_category e
      then Some (case map_of acc c of
                   None \<Rightarrow> \<lparr>cs_count = 1, cs_total_amount = zd_amount e,
                             cs_total_zakat = zd_zakat_amount e\<rparr>
                 | Some st \<Rightarrow> \<lparr>cs_count = cs_count st + 1,
                                cs_total_amount = cs_total_amount st + zd_amount e,
                                cs_total_zakat = cs_total_zakat st + zd_zakat_amount e\<rparr>)
      else map_of acc c)"
proof (cases "zd_category e \<in> fst ` set acc")
  case True
  then obtain st where "map_of acc (zd_category e) = Some st"
    by (metis map_of_eq_None_iff option.exhaust)
  with True show ?thesis
    by (simp add: category_step_def update_conv')
next
  case False
  then have "map_of acc (zd_category e) = None" by (simp add: map_of_eq_None_iff)
  with False show ?thesis
    by (simp add: category_step_def update_conv')
qed

lemma category_step_distinct:
  "distinct (map fst acc) \<Longrightarrow> distinct (map fst (category_step acc e))"
  by (simp add: category_step_def Let_def distinct_update split: option.splits)

lemma category_loop_distinct:
  "distinct (map fst acc) \<Longrightarrow> distinct (map fst (foldl category_step acc es))"
  by (induction es arbitrary: acc) (simp_all add: category_step_distinct)

lemma category_loop_lookup:
  "map_of (foldl category_step acc es) c =
     (case map_of acc c of
        None \<Rightarrow> if c \<in> zd_category ` set es then Some (category_totals c es) else None
      | Some st \<Rightarrow>
          Some \<lparr>cs_count = cs_count st + cs_count (category_totals c es),
                cs_total_amount = cs_total_amount st + cs_total_amount (category_totals c es),
                cs_total_zakat = cs_total_zakat st + cs_total_zakat (category_totals c es)\<rparr>)"
proof (induction es arbitrary: acc)
  case Nil
  show ?case by (simp add: category_totals_def split: option.splits)
next
  case (Cons e es)
  show ?case
    by (simp add: Cons.IH category_step_lookup category_totals_def split: option.splits)
qed

lemma category_loop_from_empty:
  "map_of (foldl category_step [] es) c =
     (if c \<in> zd_category ` set es then Some (category_totals c es) else None)"
  by (simp add: category_loop_lookup)


text \<open>
  C2. For a caller whose user exists, with \<open>entries\<close> the caller's stored entries, the
  statistics operation succeeds and returns the sum of their amounts, the sum of their stored
  obligations and their number; the breakdown has one row per distinct category present, and
  the row of a category holds the count, amount sum and obligation sum of exactly the entries
  of that category. With no entries the totals are zero and the breakdown is empty. For the
  three entries 100 Cash, 200 Cash, 50 Gold (Alice's entries in the scenario) the result is
  350, 8.75, 3 with Cash 2, 300, 7.5 and Gold 1, 50, 1.25.
\<close>

theorem statistics_are_sums:
  assumes "find_one (\<lambda>d. ud_email d = email) (users_collection s) = Some user"
    and "entries = filter (\<lambda>d. zd_user_id d = str_oid (ud_id user)) (zakat_collection s)"
  shows "(\<exists>st. get_zakat_statistics email s = Inr st
            \<and> total_amount st = sum_list (map zd_amount entries)
            \<and> total_zakat st = sum_list (map zd_zakat_amount entries)
            \<and> total_entries st = length entries
            \<and> distinct (map fst (category_breakdown st))
            \<and> (\<forall>c. map_of (category_breakdown st) c =
                     (if c \<in> zd_category ` set entries then Some (category_totals c entries)
                      else None))
            \<and> (entries = [] \<longrightarrow>
                   st = \<lparr>total_amount = 0, total_zakat = 0, total_entries = 0,
                          category_breakdown = []\<rparr>))
         \<and> map (\<lambda>d. (zd_amount d, zd_category d))
               (filter (\<lambda>d. zd_user_id d = alice_id) (zakat_collection example_db))
             = [(100, ''Cash''), (200, ''Cash''), (50, ''Gold'')]
         \<and> get_zakat_statistics ''alice@example.com'' example_db =
               Inr \<lparr>total_amount = 350, total_zakat = 8.75, total_entries = 3,
                     category_breakdown =
                       [(''Cash'', \<lparr>cs_count = 2, cs_total_amount = 300, cs_total_zakat = 7.5\<rparr>),
                        (''Gold'', \<lparr>cs_count = 1, cs_total_amount = 50, cs_total_zakat = 1.25\<rparr>)]\<rparr>"
proof (intro conjI)
  let ?st = "\<lparr>total_amount = sum_list (map zd_amount entries),
              total_zakat = sum_list (map zd_zakat_amount entries),
              total_entries = length entries,
              category_breakdown = foldl category_step [] entries\<rparr>"
  have r: "get_zakat_statistics email s = Inr ?st"
    using assms by (simp add: get_zakat_statistics_def find_many_def Let_def)
  have d: "distinct (map fst (foldl category_step [] entries))"
    by (rule category_loop_distinct) simp
  have l: "\<forall>c. map_of (foldl category_step [] entries) c =
             (if c \<in> zd_category ` set entries then Some (category_totals c entries) else None)"
    by (simp add: category_loop_from_empty)
  show "\<exists>st. get_zakat_statistics email s = Inr st
            \<and> total_amount st = sum_list (map zd_amount entries)
            \<and> total_zakat st = sum_list (map zd_zakat_amount entries)
            \<and> total_entries st = length entries
            \<and> distinct (map fst (category_breakdown st))
            \<and> (\<forall>c. map_of (category_breakdown st) c =
                     (if c \<in> zd_category ` set entries then Some (category_totals c entries)
                      else None))
            \<and> (entries = [] \<longrightarrow>
                   st = \<lparr>total_amount = 0, total_zakat = 0, total_entries = 0,
                          category_breakdown = []\<rparr>)"
  proof (intro exI[of _ ?st] conjI)
    show "get_zakat_statistics email s = Inr ?st" by (rule r)
    show "distinct (map fst (category_breakdown ?st))" using d by simp
    show "\<forall>c. map_of (category_breakdown ?st) c =
             (if c \<in> zd_category ` set entries then Some (category_totals c entries) else None)"
      using l by simp
  qed simp_all
next
  show "map (\<lambda>d. (zd_amount d, zd_category d))
               (filter (\<lambda>d. zd_user_id d = alice_id) (zakat_collection example_db))
             = [(100, ''Cash''), (200, ''Cash''), (50, ''Gold'')]"
    by (simp add: example_db_eq alice_id_def bob_id_def)
next
  show "get_zakat_statistics ''alice@example.com'' example_db =
               Inr \<lparr>total_amount = 350, total_zakat = 8.75, total_entries = 3,
                     category_breakdown =
                       [(''Cash'', \<lparr>cs_count = 2, cs_total_amount = 300, cs_total_zakat = 7.5\<rparr>),
                        (''Gold'', \<lparr>cs_count = 1, cs_total_amount = 50, cs_total_zakat = 1.25\<rparr>)]\<rparr>"
    by (simp add: get_zakat_statistics_def category_step_def scenario_simps)
qed

text \<open>The theorem for a caller with no entries and for a caller with one.\<close>

theorem statistics_are_sums_witness:
  "find_one (\<lambda>d. ud_email d = ''alice@example.com'') (users_collection two_users) \<noteq> None
   \<and> get_zakat_statistics ''alice@example.com'' two_users =
        Inr \<lparr>total_amount = 0, total_zakat = 0, total_entries = 0, category_breakdown = []\<rparr>
   \<and> (\<exists>st. get_zakat_statistics ''bob@example.com'' example_db = Inr st
          \<and> total_amount st = 70 \<and> total_zakat st = 1.75 \<and> total_entries st = 1
          \<and> map_of (category_breakdown st) ''Silver''
              = Some \<lparr>cs_count = 1, cs_total_amount = 70, cs_total_zakat = 1.75\<rparr>
          \<and> map_of (category_breakdown st) ''Cash'' = None)"
proof -
  let ?a = "\<lparr>ud_id = OID alice_id, ud_username = ''alice'', ud_email = ''alice@example.com'',
             ud_password = ''h:pw-a'', ud_full_name = ''Alice A'', ud_created_at = 10\<rparr>"
  let ?b = "\<lparr>ud_id = OID bob_id, ud_username = ''bob'', ud_email = ''bob@example.com'',
             ud_password = ''h:pw-b'', ud_full_name = ''Bob B'', ud_created_at = 11\<rparr>"
  let ?e = "\<lparr>zd_id = OID (entry_id CHR ''3''), zd_amount = 70, zd_category = ''Silver'',
             zd_description = None, zd_date = 40, zd_zakat_amount = 1.75, zd_user_id = bob_id,
             zd_created_at = 41\<rparr>"
  have a: "find_one (\<lambda>d. ud_email d = ''alice@example.com'') (users_collection two_users) = Some ?a"
    by (simp add: two_users_eq find_one_def)
  have a': "[] = filter (\<lambda>d. zd_user_id d = str_oid (ud_id ?a)) (zakat_collection two_users)"
    by (simp add: two_users_eq)
  have b: "find_one (\<lambda>d. ud_email d = ''bob@example.com'') (users_collection example_db) = Some ?b"
    by (simp add: example_db_eq two_users_eq find_one_def)
  have b': "[?e] = filter (\<lambda>d. zd_user_id d = str_oid (ud_id ?b)) (zakat_collection example_db)"
    by (simp add: example_db_eq alice_id_def bob_id_def)
  from statistics_are_sums[OF a a'] statistics_are_sums[OF b b'] a
  show ?thesis by (auto simp: category_totals_def)
qed

section \<open>C3: negative amounts\<close>

text \<open>
  \<open>ZakatCreate\<close> declares \<open>amount: float\<close> with no bound, and \<open>create_zakat_entry\<close>
  makes no check of its own, so every amount reaches the calculation.

  C3 (as stated, refuted). A creation request with the negative amount -100 is not rejected:
  it succeeds, the obligation -2.5 is computed and the entry is stored.
\<close>

theorem negative_amount_rejected_counterexample:
  "create_zakat_entry (new_entry (- 100) ''Cash'') ''alice@example.com'' 50 51
       (OID (entry_id CHR ''5'')) two_users
   = (Inr \<lparr>zr_id = entry_id CHR ''5'', zr_amount = - 100, zr_category = ''Cash'',
            zr_description = None, zr_date = 50, zr_zakat_amount = - 2.5,
            zr_user_id = alice_id\<rparr>,
      two_users\<lparr>zakat_collection :=
        [\<lparr>zd_id = OID (entry_id CHR ''5''), zd_amount = - 100, zd_category = ''Cash'',
          zd_description = None, zd_date = 50, zd_zakat_amount = - 2.5, zd_user_id = alice_id,
          zd_created_at = 51\<rparr>]\<rparr>)"
  by (simp add: create_zakat_entry_def scenario_simps)

text \<open>
  C3 (amended). Entry creation applies no sign check: for every amount, negative ones
  included, and every caller whose user exists, the request is accepted, the obligation is
  computed as \<open>amount * 0.025\<close> and an entry with that amount is appended to the store.
\<close>

theorem create_accepts_every_amount:
  assumes "find_one (\<lambda>d. ud_email d = email) (users_collection s) = Some user"
    and "doc = \<lparr>zd_id = i, zd_amount = zc_amount z, zd_category = zc_category z,
                zd_description = zc_description z,
                zd_date = (case zc_date z of Some t \<Rightarrow> t | None \<Rightarrow> now_date),
                zd_zakat_amount = zc_amount z * 0.025, zd_user_id = str_oid (ud_id user),
                zd_created_at = now_created\<rparr>"
  shows "create_zakat_entry z email now_date now_created i s =
           (Inr (zakat_response doc), s\<lparr>zakat_collection := zakat_collection s @ [doc]\<rparr>)
         \<and> zr_amount (zakat_response doc) = zc_amount z
         \<and> zr_zakat_amount (zakat_response doc) = zc_amount z * 0.025"
  using assms by (simp add: create_zakat_entry_def insert_one_def zakat_response_def Let_def)

text \<open>The amended theorem at a negative amount.\<close>

theorem create_accepts_every_amount_witness:
  "find_one (\<lambda>d. ud_email d = ''bob@example.com'') (users_collection example_db) \<noteq> None
   \<and> zc_amount (new_entry (- 40) ''Gold'') < 0
   \<and> (\<exists>r s'. create_zakat_entry (new_entry (- 40) ''Gold'') ''bob@example.com'' 60 61
                  (OID (entry_id CHR ''6'')) example_db = (Inr r, s')
             \<and> zr_amount r = - 40 \<and> zr_zakat_amount r = - 1
             \<and> map zd_amount (zakat_collection s') = [100, 200, 70, 50, - 40])"
proof -
  let ?b = "\<lparr>ud_id = OID bob_id, ud_username = ''bob'', ud_email = ''bob@example.com'',
             ud_password = ''h:pw-b'', ud_full_name = ''Bob B'', ud_created_at = 11\<rparr>"
  have b: "find_one (\<lambda>d. ud_email d = ''bob@example.com'') (users_collection example_db) = Some ?b"
    by (simp add: example_db_eq two_users_eq find_one_def)
  from create_accepts_every_amount[OF b refl, where i = "OID (entry_id CHR ''6'')"
      and z = "new_entry (- 40) ''Gold''" and now_date = 60 and now_created = 61] b
  show ?thesis by (simp add: new_entry_def example_db_eq)
qed

section \<open>C4: the outcomes of fetching one entry\<close>











section \<open>C5: an update replaces exactly the supplied fields\<close>

lemma update_one_distinct:
  "distinct (map f xs) \<Longrightarrow> (\<And>d. f (upd d) = f d) \<Longrightarrow>
   update_one (\<lambda>d. f d = i) upd xs = map (\<lambda>d. if f d = i then upd d else d) xs"
proof (induction xs)
  case Nil
  show ?case by simp
next
  case (Cons x xs)
  show ?case
  proof (cases "f x = i")
    case True
    with Cons.prems have "\<forall>d \<in> set xs. f d \<noteq> i" by (auto simp: image_iff)
    then have "map (\<lambda>d. if f d = i then upd d else d) xs = xs"
      by (induction xs) auto
    with True show ?thesis by simp
  next
    case False
    with Cons show ?thesis by simp
  qed
qed

lemma find_one_unique:
  "distinct (map f xs) \<Longrightarrow> d \<in> set xs \<Longrightarrow> f d = i \<Longrightarrow> p d \<Longrightarrow>
   find_one (\<lambda>x. f x = i \<and> p x) xs = Some d \<and> find_one (\<lambda>x. f x = i) xs = Some d"
proof (induction xs)
  case Nil
  then show ?case by simp
next
  case (Cons x xs)
  show ?case
  proof (cases "x = d")
    case True
    with Cons.prems show ?thesis by (simp add: find_one_def)
  next
    case False
    with Cons.prems have "d \<in> set xs" "f x \<noteq> i" by (auto simp: image_iff)
    with Cons show ?thesis by (simp add: find_one_def)
  qed
qed


text \<open>
  C5. In a store whose entries have distinct identifiers, an update by the owner of the entry
  \<open>old\<close> succeeds and returns the entry \<open>new\<close>, which is \<open>old\<close> with each supplied field
  replaced and every other field (identifier, owner and creation time included) as before; the
  obligation is \<open>amount * 0.025\<close> of the new amount when an amount is supplied and the old
  obligation otherwise. The store afterwards holds \<open>new\<close> in place of \<open>old\<close> and is
  otherwise unchanged. With the empty body the result is the entry as it was, and the store
  is unchanged.
\<close>

theorem update_replaces_supplied_fields:
  assumes "find_one (\<lambda>d. ud_email d = email) (users_collection s) = Some user"
    and "ObjectId zid = Some i"
    and "old \<in> set (zakat_collection s)"
    and "zd_id old = i"
    and "zd_user_id old = str_oid (ud_id user)"
    and "distinct (map zd_id (zakat_collection s))"
    and "new = old\<lparr>zd_amount := (case zu_amount z of Some a \<Rightarrow> a | None \<Rightarrow> zd_amount old),
            zd_zakat_amount :=
              (case zu_amount z of Some a \<Rightarrow> a * 0.025 | None \<Rightarrow> zd_zakat_amount old),
            zd_category := (case zu_category z of Some c \<Rightarrow> c | None \<Rightarrow> zd_category old),
            zd_description :=
              (case zu_description z of Some t \<Rightarrow> Some t | None \<Rightarrow> zd_description old),
            zd_date := (case zu_date z of Some t \<Rightarrow> t | None \<Rightarrow> zd_date old)\<rparr>"
  shows "update_zakat_entry zid z email s =
           (Inr (zakat_response new),
            s\<lparr>zakat_collection :=
                 map (\<lambda>d. if zd_id d = i then new else d) (zakat_collection s)\<rparr>)
         \<and> (z = no_update \<longrightarrow>
               update_zakat_entry zid z email s = (Inr (zakat_response old), s))"
proof -
  let ?own = "\<lambda>d. zd_id d = i \<and> zd_user_id d = str_oid (ud_id user)"
  have n: "new = dollar_set (update_data z) old"
    by (simp add: assms(7) dollar_set_update_data)
  have f: "find_one ?own (zakat_collection s) = Some old"
    "find_one (\<lambda>d. zd_id d = i) (zakat_collection s) = Some old"
    using find_one_unique[OF assms(6) assms(3) assms(4),
        of "\<lambda>d. zd_user_id d = str_oid (ud_id user)"] assms(5) by simp_all
  have m: "map (\<lambda>d. if zd_id d = i then new else d) (zakat_collection s)
        = update_one (\<lambda>d. zd_id d = i) (dollar_set (update_data z)) (zakat_collection s)"
  proof -
    have "update_one (\<lambda>d. zd_id d = i) (dollar_set (update_data z)) (zakat_collection s)
          = map (\<lambda>d. if zd_id d = i then dollar_set (update_data z) d else d) (zakat_collection s)"
      by (rule update_one_distinct[OF assms(6)]) (rule zd_id_dollar_set)
    also have "\<dots> = map (\<lambda>d. if zd_id d = i then new else d) (zakat_collection s)"
    proof (rule map_cong[OF refl])
      fix d assume d: "d \<in> set (zakat_collection s)"
      show "(if zd_id d = i then dollar_set (update_data z) d else d)
            = (if zd_id d = i then new else d)"
      proof (cases "zd_id d = i")
        case True
        with d assms(3,4,6) have "d = old" by (auto simp: distinct_map inj_on_def)
        with True n show ?thesis by simp
      next
        case False
        then show ?thesis by simp
      qed
    qed
    finally show ?thesis by simp
  qed
  have f': "find_one (\<lambda>d. zd_id d = i)
              (update_one (\<lambda>d. zd_id d = i) (dollar_set (update_data z)) (zakat_collection s))
            = Some new"
    by (subst find_one_update_one) (simp_all add: zd_id_dollar_set f n)
  have main: "update_zakat_entry zid z email s =
           (Inr (zakat_response new),
            s\<lparr>zakat_collection :=
                 map (\<lambda>d. if zd_id d = i then new else d) (zakat_collection s)\<rparr>)"
  proof (cases "update_data z = []")
    case True
    then have e: "new = old" by (simp add: n dollar_set_def)
    have "map (\<lambda>d. if zd_id d = i then new else d) (zakat_collection s) = zakat_collection s"
    proof (rule map_idI)
      fix d assume d: "d \<in> set (zakat_collection s)"
      have "zd_id d = i \<Longrightarrow> d = old"
        using d assms(3,4,6) by (auto simp: distinct_map inj_on_def)
      with e show "(if zd_id d = i then new else d) = d" by auto
    qed
    with True e f assms(1,2) show ?thesis
      by (simp add: update_zakat_entry_def)
  next
    case False
    with f f' assms(1,2) show ?thesis
      by (simp add: update_zakat_entry_def m)
  qed
  moreover have "z = no_update \<longrightarrow> update_zakat_entry zid z email s = (Inr (zakat_response old), s)"
  proof
    assume z: "z = no_update"
    then have "update_data z = []" by (simp add: no_update_def update_data_def)
    with f assms(1,2) show "update_zakat_entry zid z email s = (Inr (zakat_response old), s)"
      by (simp add: update_zakat_entry_def)
  qed
  ultimately show ?thesis by simp
qed


text \<open>The theorem for Alice's second entry: a new category, and the empty body.\<close>

theorem update_replaces_supplied_fields_witness:
  "distinct (map zd_id (zakat_collection example_db))
   \<and> update_zakat_entry (entry_id CHR ''2'') (category_update ''Business'') ''alice@example.com''
         example_db
       = (Inr \<lparr>zr_id = entry_id CHR ''2'', zr_amount = 200, zr_category = ''Business'',
                zr_description = None, zr_date = 30, zr_zakat_amount = 5, zr_user_id = alice_id\<rparr>,
          example_db\<lparr>zakat_collection :=
            map (\<lambda>d. if zd_id d = OID (entry_id CHR ''2'') then d\<lparr>zd_category := ''Business''\<rparr>
                     else d) (zakat_collection example_db)\<rparr>)
   \<and> update_zakat_entry (entry_id CHR ''2'') no_update ''alice@example.com'' example_db
       = (Inr \<lparr>zr_id = entry_id CHR ''2'', zr_amount = 200, zr_category = ''Cash'',
                zr_description = None, zr_date = 30, zr_zakat_amount = 5, zr_user_id = alice_id\<rparr>,
          example_db)"
proof -
  let ?a = "\<lparr>ud_id = OID alice_id, ud_username = ''alice'', ud_email = ''alice@example.com'',
             ud_password = ''h:pw-a'', ud_full_name = ''Alice A'', ud_created_at = 10\<rparr>"
  let ?old = "\<lparr>zd_id = OID (entry_id CHR ''2''), zd_amount = 200, zd_category = ''Cash'',
          zd_description = None, zd_date = 30, zd_zakat_amount = 5, zd_user_id = alice_id,
          zd_created_at = 31\<rparr>"
  have a: "find_one (\<lambda>d. ud_email d = ''alice@example.com'') (users_collection example_db) = Some ?a"
    by (simp add: example_db_eq two_users_eq find_one_def)
  have i: "ObjectId (entry_id CHR ''2'') = Some (OID (entry_id CHR ''2''))" by simp
  have m: "?old \<in> set (zakat_collection example_db)" by (simp add: example_db_eq)
  have k: "zd_id ?old = OID (entry_id CHR ''2'')" by simp
  have o: "zd_user_id ?old = str_oid (ud_id ?a)" by simp
  have d: "distinct (map zd_id (zakat_collection example_db))" by (simp add: example_db_eq)
  note t = update_replaces_supplied_fields[OF a i m k o d refl]
  have 1: "update_zakat_entry (entry_id CHR ''2'') (category_update ''Business'') ''alice@example.com''
         example_db
       = (Inr \<lparr>zr_id = entry_id CHR ''2'', zr_amount = 200, zr_category = ''Business'',
                zr_description = None, zr_date = 30, zr_zakat_amount = 5, zr_user_id = alice_id\<rparr>,
          example_db\<lparr>zakat_collection :=
            map (\<lambda>d. if zd_id d = OID (entry_id CHR ''2'') then ?old\<lparr>zd_category := ''Business''\<rparr>
                     else d) (zakat_collection example_db)\<rparr>)"
    using t[of "category_update ''Business''"]
    by (simp add: category_update_def no_update_def zakat_response_def)
  have 2: "map (\<lambda>d. if zd_id d = OID (entry_id CHR ''2'') then ?old\<lparr>zd_category := ''Business''\<rparr>
                     else d) (zakat_collection example_db)
         = map (\<lambda>d. if zd_id d = OID (entry_id CHR ''2'') then d\<lparr>zd_category := ''Business''\<rparr>
                     else d) (zakat_collection example_db)"
    by (simp add: example_db_eq)
  have 3: "update_zakat_entry (entry_id CHR ''2'') no_update ''alice@example.com'' example_db
       = (Inr \<lparr>zr_id = entry_id CHR ''2'', zr_amount = 200, zr_category = ''Cash'',
                zr_description = None, zr_date = 30, zr_zakat_amount = 5, zr_user_id = alice_id\<rparr>,
          example_db)"
  proof -
    have "update_zakat_entry (entry_id CHR ''2'') no_update ''alice@example.com'' example_db
          = (Inr (zakat_response ?old), example_db)"
      using t[of no_update] by blast
    then show ?thesis by (simp add: zakat_response_def)
  qed
  from d 1 2 3 show ?thesis by simp
qed

section \<open>C6: deleting an entry, once and twice\<close>

lemma delete_one_no_match:
  "\<forall>d \<in> set xs. \<not> flt d \<Longrightarrow> delete_one flt xs = (0, xs)"
  by (induction xs) auto

lemma delete_one_unique:
  "distinct (map f xs) \<Longrightarrow> d \<in> set xs \<Longrightarrow> f d = i \<Longrightarrow> p d \<Longrightarrow>
   delete_one (\<lambda>x. f x = i \<and> p x) xs = (1, filter (\<lambda>x. f x \<noteq> i) xs)"
proof (induction xs)
  case Nil
  then show ?case by simp
next
  case (Cons x xs)
  show ?case
  proof (cases "x = d")
    case True
    with Cons.prems have "\<forall>y \<in> set xs. f y \<noteq> i" by (auto simp: image_iff)
    then have "filter (\<lambda>x. f x \<noteq> i) xs = xs" by (simp add: filter_id_conv)
    with True Cons.prems show ?thesis by simp
  next
    case False
    with Cons.prems have "d \<in> set xs" "f x \<noteq> i" by (auto simp: image_iff)
    with Cons show ?thesis by simp
  qed
qed

text \<open>
  C6. For a well-formed id, in a store whose entries have distinct identifiers: when the
  caller owns an entry with the id, the deletion succeeds and the store afterwards is the old
  one without that entry; deleting the same id again fails with 404 "Zakat entry not found"
  and leaves the store as it is, and no entry has the id after either request. When the caller
  owns no entry with the id, the deletion fails with status 404 and the store is unchanged.
\<close>

theorem delete_outcomes:
  assumes "ObjectId zid = Some i"
    and "distinct (map zd_id (zakat_collection s))"
    and "s' = s\<lparr>zakat_collection := filter (\<lambda>d. zd_id d \<noteq> i) (zakat_collection s)\<rparr>"
  shows "(\<forall>user. find_one (\<lambda>d. ud_email d = email) (users_collection s) = Some user
            \<and> (\<exists>d \<in> set (zakat_collection s). zd_id d = i \<and> zd_user_id d = str_oid (ud_id user))
          \<longrightarrow> delete_zakat_entry zid email s = (Inr (), s')
              \<and> delete_zakat_entry zid email s' = (Inl (HTTPException 404 ''Zakat entry not found'' []), s')
              \<and> i \<notin> zd_id ` set (zakat_collection s'))
       \<and> ((\<forall>user. find_one (\<lambda>d. ud_email d = email) (users_collection s) = Some user
              \<longrightarrow> (\<forall>d \<in> set (zakat_collection s). zd_id d = i \<longrightarrow> zd_user_id d \<noteq> str_oid (ud_id user)))
          \<longrightarrow> (\<exists>msg. delete_zakat_entry zid email s = (Inl (HTTPException 404 msg []), s)))"
proof (intro conjI allI impI)
  fix user
  assume h: "find_one (\<lambda>d. ud_email d = email) (users_collection s) = Some user
            \<and> (\<exists>d \<in> set (zakat_collection s). zd_id d = i \<and> zd_user_id d = str_oid (ud_id user))"
  then obtain d where d: "d \<in> set (zakat_collection s)" "zd_id d = i"
    "zd_user_id d = str_oid (ud_id user)" by blast
  have del: "delete_one (\<lambda>x. zd_id x = i \<and> zd_user_id x = str_oid (ud_id user)) (zakat_collection s)
        = (1, filter (\<lambda>x. zd_id x \<noteq> i) (zakat_collection s))"
    using assms(2) d by (rule delete_one_unique)
  show 1: "delete_zakat_entry zid email s = (Inr (), s')"
    using h assms(1,3) del by (simp add: delete_zakat_entry_def)
  have u': "find_one (\<lambda>d. ud_email d = email) (users_collection s') = Some user"
    using h assms(3) by simp
  have "delete_one (\<lambda>x. zd_id x = i \<and> zd_user_id x = str_oid (ud_id user)) (zakat_collection s')
        = (0, zakat_collection s')"
    by (rule delete_one_no_match) (simp add: assms(3))
  with u' assms(1) show "delete_zakat_entry zid email s' = (Inl (HTTPException 404 ''Zakat entry not found'' []), s')"
    by (simp add: delete_zakat_entry_def zakat_entry_not_found_def)
  show "i \<notin> zd_id ` set (zakat_collection s')"
    by (auto simp: assms(3))
next
  assume h: "\<forall>user. find_one (\<lambda>d. ud_email d = email) (users_collection s) = Some user
              \<longrightarrow> (\<forall>d \<in> set (zakat_collection s). zd_id d = i \<longrightarrow> zd_user_id d \<noteq> str_oid (ud_id user))"
  show "\<exists>msg. delete_zakat_entry zid email s = (Inl (HTTPException 404 msg []), s)"
  proof (cases "find_one (\<lambda>d. ud_email d = email) (users_collection s)")
    case None
    then show ?thesis by (simp add: delete_zakat_entry_def user_not_found_def)
  next
    case (Some user)
    with h have "\<forall>d \<in> set (zakat_collection s). \<not> (zd_id d = i \<and> zd_user_id d = str_oid (ud_id user))"
      by blast
    then have "delete_one (\<lambda>x. zd_id x = i \<and> zd_user_id x = str_oid (ud_id user)) (zakat_collection s)
        = (0, zakat_collection s)"
      by (rule delete_one_no_match)
    with Some assms(1) show ?thesis
      by (simp add: delete_zakat_entry_def zakat_entry_not_found_def)
  qed
qed


text \<open>The theorem for Alice: her first entry deleted twice, and Bob's entry.\<close>

theorem delete_outcomes_witness:
  "ObjectId (entry_id CHR ''1'') = Some (OID (entry_id CHR ''1''))
   \<and> distinct (map zd_id (zakat_collection example_db))
   \<and> map zd_id (zakat_collection (snd (delete_zakat_entry (entry_id CHR ''1'') ''alice@example.com'' example_db)))
       = [OID (entry_id CHR ''2''), OID (entry_id CHR ''3''), OID (entry_id CHR ''4'')]
   \<and> fst (delete_zakat_entry (entry_id CHR ''1'') ''alice@example.com'' example_db) = Inr ()
   \<and> fst (delete_zakat_entry (entry_id CHR ''1'') ''alice@example.com''
          (snd (delete_zakat_entry (entry_id CHR ''1'') ''alice@example.com'' example_db)))
       = Inl (HTTPException 404 ''Zakat entry not found'' [])
   \<and> (\<exists>msg. delete_zakat_entry (entry_id CHR ''3'') ''alice@example.com'' example_db
          = (Inl (HTTPException 404 msg []), example_db))"
proof -
  let ?a = "\<lparr>ud_id = OID alice_id, ud_username = ''alice'', ud_email = ''alice@example.com'',
             ud_password = ''h:pw-a'', ud_full_name = ''Alice A'', ud_created_at = 10\<rparr>"
  have a: "find_one (\<lambda>d. ud_email d = ''alice@example.com'') (users_collection example_db) = Some ?a"
    by (simp add: example_db_eq two_users_eq find_one_def)
  have i1: "ObjectId (entry_id CHR ''1'') = Some (OID (entry_id CHR ''1''))" by simp
  have i3: "ObjectId (entry_id CHR ''3'') = Some (OID (entry_id CHR ''3''))" by simp
  have d: "distinct (map zd_id (zakat_collection example_db))" by (simp add: example_db_eq)
  have own: "\<exists>d \<in> set (zakat_collection example_db).
               zd_id d = OID (entry_id CHR ''1'') \<and> zd_user_id d = str_oid (ud_id ?a)"
    by (simp add: example_db_eq)
  have other: "\<forall>user. find_one (\<lambda>d. ud_email d = ''alice@example.com'') (users_collection example_db)
                   = Some user
              \<longrightarrow> (\<forall>d \<in> set (zakat_collection example_db).
                     zd_id d = OID (entry_id CHR ''3'') \<longrightarrow> zd_user_id d \<noteq> str_oid (ud_id user))"
    by (simp add: a) (simp add: example_db_eq alice_id_def bob_id_def)
  let ?s' = "example_db\<lparr>zakat_collection :=
               filter (\<lambda>d. zd_id d \<noteq> OID (entry_id CHR ''1'')) (zakat_collection example_db)\<rparr>"
  have 1: "delete_zakat_entry (entry_id CHR ''1'') ''alice@example.com'' example_db = (Inr (), ?s')"
    and 2: "delete_zakat_entry (entry_id CHR ''1'') ''alice@example.com'' ?s'
            = (Inl (HTTPException 404 ''Zakat entry not found'' []), ?s')"
    using delete_outcomes[OF i1 d refl, of "''alice@example.com''"] a own by blast+
  have 3: "\<exists>msg. delete_zakat_entry (entry_id CHR ''3'') ''alice@example.com'' example_db
          = (Inl (HTTPException 404 msg []), example_db)"
    using delete_outcomes[OF i3 d refl, of "''alice@example.com''"] other by blast
  have 4: "map zd_id (zakat_collection ?s')
       = [OID (entry_id CHR ''2''), OID (entry_id CHR ''3''), OID (entry_id CHR ''4'')]"
    by (simp add: example_db_eq)
  from i1 d 1 2 3 4 show ?thesis by simp
qed

section \<open>C7: the list of entries\<close>

lemma sort_descending_mset: "mset (sort_descending key xs) = mset xs"
  by (simp add: sort_descending_def)

lemma sort_descending_sorted:
  "sorted_wrt (\<lambda>a b. key b \<le> key a) (sort_descending key xs)"
proof -
  have "sorted (map key (sort_key key xs))" by (rule sorted_sort_key)
  then have "sorted_wrt (\<lambda>a b. key a \<le> key b) (sort_key key xs)"
    by (simp add: sorted_wrt_map)
  then show ?thesis
    by (simp add: sort_descending_def sorted_wrt_rev)
qed

text \<open>
  C7. For a caller whose user exists, the list operation succeeds; its result holds exactly
  the caller's stored entries (the same entries with the same multiplicities), every entry in
  it is owned by the caller, and the dates never increase along the list.
\<close>

theorem list_entries_owned_sorted:
  assumes "find_one (\<lambda>d. ud_email d = email) (users_collection s) = Some user"
    and "uid = str_oid (ud_id user)"
  shows "\<exists>rs. get_zakat_entries email s = Inr rs
           \<and> mset rs = mset (map zakat_response (filter (\<lambda>d. zd_user_id d = uid) (zakat_collection s)))
           \<and> (\<forall>r \<in> set rs. zr_user_id r = uid)
           \<and> sorted_wrt (\<lambda>a b. zr_date b \<le> zr_date a) rs"
proof -
  let ?own = "filter (\<lambda>d. zd_user_id d = uid) (zakat_collection s)"
  let ?rs = "map zakat_response (sort_descending zd_date ?own)"
  have r: "get_zakat_entries email s = Inr ?rs"
    using assms by (simp add: get_zakat_entries_def find_many_def)
  have m: "mset ?rs = mset (map zakat_response ?own)"
    by (simp add: sort_descending_mset)
  have "set (sort_descending zd_date ?own) = set ?own"
    by (simp add: sort_descending_def)
  then have o: "\<forall>r \<in> set ?rs. zr_user_id r = uid"
    by (auto simp: zakat_response_def)
  have "sorted_wrt (\<lambda>a b. zd_date b \<le> zd_date a) (sort_descending zd_date ?own)"
    by (rule sort_descending_sorted)
  then have d: "sorted_wrt (\<lambda>a b. zr_date b \<le> zr_date a) ?rs"
    by (simp add: sorted_wrt_map zakat_response_def)
  from r m o d show ?thesis by blast
qed

text \<open>The theorem for Alice, whose entries were recorded at dates 20, 30 and 25.\<close>

theorem list_entries_owned_sorted_witness:
  "find_one (\<lambda>d. ud_email d = ''alice@example.com'') (users_collection example_db) \<noteq> None
   \<and> (\<exists>rs. get_zakat_entries ''alice@example.com'' example_db = Inr rs
         \<and> map (\<lambda>r. (zr_id r, zr_date r, zr_user_id r)) rs
            = [(entry_id CHR ''2'', 30, alice_id), (entry_id CHR ''4'', 25, alice_id),
               (entry_id CHR ''1'', 20, alice_id)]
         \<and> sorted_wrt (\<lambda>a b. zr_date b \<le> zr_date a) rs)"
proof -
  let ?a = "\<lparr>ud_id = OID alice_id, ud_username = ''alice'', ud_email = ''alice@example.com'',
             ud_password = ''h:pw-a'', ud_full_name = ''Alice A'', ud_created_at = 10\<rparr>"
  have a: "find_one (\<lambda>d. ud_email d = ''alice@example.com'') (users_collection example_db) = Some ?a"
    by (simp add: example_db_eq two_users_eq find_one_def)
  have u: "alice_id = str_oid (ud_id ?a)" by simp
  obtain rs where rs: "get_zakat_entries ''alice@example.com'' example_db = Inr rs"
    and srt: "sorted_wrt (\<lambda>a b. zr_date b \<le> zr_date a) rs"
    using list_entries_owned_sorted[OF a u] by blast
  have "get_zakat_entries ''alice@example.com'' example_db
        = Inr (map zakat_response
            [\<lparr>zd_id = OID (entry_id CHR ''2''), zd_amount = 200, zd_category = ''Cash'',
              zd_description = None, zd_date = 30, zd_zakat_amount = 5, zd_user_id = alice_id,
              zd_created_at = 31\<rparr>,
             \<lparr>zd_id = OID (entry_id CHR ''4''), zd_amount = 50, zd_category = ''Gold'',
              zd_description = None, zd_date = 25, zd_zakat_amount = 1.25, zd_user_id = alice_id,
              zd_created_at = 26\<rparr>,
             \<lparr>zd_id = OID (entry_id CHR ''1''), zd_amount = 100, zd_category = ''Cash'',
              zd_description = None, zd_date = 20, zd_zakat_amount = 2.5, zd_user_id = alice_id,
              zd_created_at = 21\<rparr>])"
    by (simp add: get_zakat_entries_def sort_descending_def example_db_eq two_users_eq
        find_one_def find_many_def alice_id_def bob_id_def)
  with rs have "map (\<lambda>r. (zr_id r, zr_date r, zr_user_id r)) rs
            = [(entry_id CHR ''2'', 30, alice_id), (entry_id CHR ''4'', 25, alice_id),
               (entry_id CHR ''1'', 20, alice_id)]"
    by (auto simp: zakat_response_def)
  with a rs srt show ?thesis by auto
qed

section \<open>C8: failed logins are indistinguishable\<close>

text \<open>
  C8. For every password check and token issuer: a login for an email no user has and a
  login with a password the check rejects both fail with the same value, status 401 with
  "Incorrect email or password" and the same header, so any two failed logins return equal
  errors; a login with an existing email and a password the check accepts returns a bearer
  token issued for that user's email, which is the submitted one.
\<close>

theorem login_failures_indistinguishable:
  "(find_one (\<lambda>d. ud_email d = form_username form_data) (users_collection s) = None \<longrightarrow>
      login verify_password create_access_token minutes form_data s
        = Inl (HTTPException 401 ''Incorrect email or password'' [(''WWW-Authenticate'', ''Bearer'')]))
   \<and> (\<forall>user. find_one (\<lambda>d. ud_email d = form_username form_data) (users_collection s) = Some user
          \<and> \<not> verify_password (form_password form_data) (ud_password user) \<longrightarrow>
      login verify_password create_access_token minutes form_data s
        = Inl (HTTPException 401 ''Incorrect email or password'' [(''WWW-Authenticate'', ''Bearer'')]))
   \<and> (\<forall>user. find_one (\<lambda>d. ud_email d = form_username form_data) (users_collection s) = Some user
          \<and> verify_password (form_password form_data) (ud_password user) \<longrightarrow>
      ud_email user = form_username form_data
      \<and> login verify_password create_access_token minutes form_data s
        = Inr \<lparr>access_token = create_access_token (ud_email user) minutes, token_type = ''bearer''\<rparr>)
   \<and> (\<forall>err err' form_data' s'.
          login verify_password create_access_token minutes form_data s = Inl err
          \<and> login verify_password create_access_token minutes form_data' s' = Inl err'
          \<longrightarrow> err = err')"
proof (intro conjI allI impI)
  assume "find_one (\<lambda>d. ud_email d = form_username form_data) (users_collection s) = None"
  then show "login verify_password create_access_token minutes form_data s
        = Inl (HTTPException 401 ''Incorrect email or password'' [(''WWW-Authenticate'', ''Bearer'')])"
    by (simp add: login_def incorrect_email_or_password_def)
next
  fix user
  assume "find_one (\<lambda>d. ud_email d = form_username form_data) (users_collection s) = Some user
          \<and> \<not> verify_password (form_password form_data) (ud_password user)"
  then show "login verify_password create_access_token minutes form_data s
        = Inl (HTTPException 401 ''Incorrect email or password'' [(''WWW-Authenticate'', ''Bearer'')])"
    by (simp add: login_def incorrect_email_or_password_def)
next
  fix user
  assume h: "find_one (\<lambda>d. ud_email d = form_username form_data) (users_collection s) = Some user
          \<and> verify_password (form_password form_data) (ud_password user)"
  then show "ud_email user = form_username form_data"
    using find_one_SomeD by fastforce
  from h show "login verify_password create_access_token minutes form_data s
        = Inr \<lparr>access_token = create_access_token (ud_email user) minutes, token_type = ''bearer''\<rparr>"
    by (simp add: login_def)
next
  fix err err' form_data' s'
  assume "login verify_password create_access_token minutes form_data s = Inl err
          \<and> login verify_password create_access_token minutes form_data' s' = Inl err'"
  then show "err = err'"
    by (auto simp: login_def split: option.splits if_splits)
qed

text \<open>The theorem for an unknown email, a wrong password and a right one.\<close>

theorem login_failures_indistinguishable_witness:
  "login toy_verify toy_token 30 \<lparr>form_username = ''carol@example.com'', form_password = ''pw-a''\<rparr>
       two_users
     = Inl (HTTPException 401 ''Incorrect email or password'' [(''WWW-Authenticate'', ''Bearer'')])
   \<and> login toy_verify toy_token 30 \<lparr>form_username = ''alice@example.com'', form_password = ''wrong''\<rparr>
       two_users
     = Inl (HTTPException 401 ''Incorrect email or password'' [(''WWW-Authenticate'', ''Bearer'')])
   \<and> login toy_verify toy_token 30 \<lparr>form_username = ''alice@example.com'', form_password = ''pw-a''\<rparr>
       two_users
     = Inr \<lparr>access_token = ''token:alice@example.com'', token_type = ''bearer''\<rparr>"
proof -
  let ?a = "\<lparr>ud_id = OID alice_id, ud_username = ''alice'', ud_email = ''alice@example.com'',
             ud_password = ''h:pw-a'', ud_full_name = ''Alice A'', ud_created_at = 10\<rparr>"
  let ?f1 = "\<lparr>form_username = ''carol@example.com'', form_password = ''pw-a''\<rparr>"
  let ?f2 = "\<lparr>form_username = ''alice@example.com'', form_password = ''wrong''\<rparr>"
  let ?f3 = "\<lparr>form_username = ''alice@example.com'', form_password = ''pw-a''\<rparr>"
  have c: "find_one (\<lambda>d. ud_email d = form_username ?f1) (users_collection two_users) = None"
    by (simp add: two_users_eq find_one_def)
  have a2: "find_one (\<lambda>d. ud_email d = form_username ?f2) (users_collection two_users) = Some ?a
            \<and> \<not> toy_verify (form_password ?f2) (ud_password ?a)"
    by (simp add: two_users_eq find_one_def toy_verify_def toy_hash_def)
  have a3: "find_one (\<lambda>d. ud_email d = form_username ?f3) (users_collection two_users) = Some ?a
            \<and> toy_verify (form_password ?f3) (ud_password ?a)"
    by (simp add: two_users_eq find_one_def toy_verify_def toy_hash_def)
  have 1: "login toy_verify toy_token 30 ?f1 two_users
     = Inl (HTTPException 401 ''Incorrect email or password'' [(''WWW-Authenticate'', ''Bearer'')])"
    using login_failures_indistinguishable[of ?f1 two_users toy_verify toy_token 30] c by blast
  have 2: "login toy_verify toy_token 30 ?f2 two_users
     = Inl (HTTPException 401 ''Incorrect email or password'' [(''WWW-Authenticate'', ''Bearer'')])"
    using login_failures_indistinguishable[of ?f2 two_users toy_verify toy_token 30] a2 by blast
  have "login toy_verify toy_token 30 ?f3 two_users
     = Inr \<lparr>access_token = toy_token (ud_email ?a) 30, token_type = ''bearer''\<rparr>"
    using login_failures_indistinguishable[of ?f3 two_users toy_verify toy_token 30] a3 by blast
  then have 3: "login toy_verify toy_token 30 ?f3 two_users
     = Inr \<lparr>access_token = ''token:alice@example.com'', token_type = ''bearer''\<rparr>"
    by (simp add: toy_token_def)
  from 1 2 3 show ?thesis by simp
qed

section \<open>C9: registration\<close>

text \<open>
  C9. When a stored user has the email or the username of the request, registration fails
  with status 400 (the conflict status of this program; "Email already registered" when the
  email is taken) and the store is unchanged. Otherwise it appends one user, with the hashed
  password, and returns the record of id, username, email, full name and creation time.
  \<open>UserResponse\<close> has no other field, and the returned value is the same whatever the
  password and the hash function are.
\<close>

theorem register_conflict_or_created:
  "((\<exists>d \<in> set (users_collection s). ud_email d = uc_email user \<or> ud_username d = uc_username user)
      \<longrightarrow> (\<exists>msg. register get_password_hash user now i s = (Inl (HTTPException 400 msg []), s)))
   \<and> ((\<exists>d \<in> set (users_collection s). ud_email d = uc_email user)
      \<longrightarrow> register get_password_hash user now i s
            = (Inl (HTTPException 400 ''Email already registered'' []), s))
   \<and> ((\<forall>d \<in> set (users_collection s). ud_email d \<noteq> uc_email user \<and> ud_username d \<noteq> uc_username user)
      \<longrightarrow> register get_password_hash user now i s
            = (Inr \<lparr>ur_id = str_oid i, ur_username = uc_username user, ur_email = uc_email user,
                    ur_full_name = uc_full_name user, ur_created_at = now\<rparr>,
               s\<lparr>users_collection := users_collection s @
                   [\<lparr>ud_id = i, ud_username = uc_username user, ud_email = uc_email user,
                     ud_password = get_password_hash (uc_password user),
                     ud_full_name = uc_full_name user, ud_created_at = now\<rparr>]\<rparr>))
   \<and> fst (register get_password_hash user now i s)
       = fst (register other_hash (user\<lparr>uc_password := other_password\<rparr>) now i s)"
proof (intro conjI impI)
  assume h: "\<exists>d \<in> set (users_collection s). ud_email d = uc_email user \<or> ud_username d = uc_username user"
  show "\<exists>msg. register get_password_hash user now i s = (Inl (HTTPException 400 msg []), s)"
  proof (cases "find_one (\<lambda>d. ud_email d = uc_email user) (users_collection s)")
    case (Some e)
    then show ?thesis by (simp add: register_def)
  next
    case None
    then have "\<forall>d \<in> set (users_collection s). ud_email d \<noteq> uc_email user"
      by (simp add: find_one_None_iff)
    with h have "find_one (\<lambda>d. ud_username d = uc_username user) (users_collection s) \<noteq> None"
      by (auto simp: find_one_None_iff)
    with None show ?thesis by (auto simp: register_def)
  qed
next
  assume "\<exists>d \<in> set (users_collection s). ud_email d = uc_email user"
  then have "find_one (\<lambda>d. ud_email d = uc_email user) (users_collection s) \<noteq> None"
    by (auto simp: find_one_None_iff)
  then show "register get_password_hash user now i s
            = (Inl (HTTPException 400 ''Email already registered'' []), s)"
    by (auto simp: register_def)
next
  assume "\<forall>d \<in> set (users_collection s). ud_email d \<noteq> uc_email user \<and> ud_username d \<noteq> uc_username user"
  then have "find_one (\<lambda>d. ud_email d = uc_email user) (users_collection s) = None"
    "find_one (\<lambda>d. ud_username d = uc_username user) (users_collection s) = None"
    by (simp_all add: find_one_None_iff)
  then show "register get_password_hash user now i s
            = (Inr \<lparr>ur_id = str_oid i, ur_username = uc_username user, ur_email = uc_email user,
                    ur_full_name = uc_full_name user, ur_created_at = now\<rparr>,
               s\<lparr>users_collection := users_collection s @
                   [\<lparr>ud_id = i, ud_username = uc_username user, ud_email = uc_email user,
                     ud_password = get_password_hash (uc_password user),
                     ud_full_name = uc_full_name user, ud_created_at = now\<rparr>]\<rparr>)"
    by (simp add: register_def user_response_def insert_one_def)
next
  show "fst (register get_password_hash user now i s)
       = fst (register other_hash (user\<lparr>uc_password := other_password\<rparr>) now i s)"
    by (simp add: register_def user_response_def Let_def split: option.splits)
qed

text \<open>The theorem for a first registration, a taken email and a taken username.\<close>

theorem register_conflict_or_created_witness:
  "register toy_hash alice 10 (OID alice_id) empty_db
     = (Inr \<lparr>ur_id = alice_id, ur_username = ''alice'', ur_email = ''alice@example.com'',
             ur_full_name = ''Alice A'', ur_created_at = 10\<rparr>,
        \<lparr>users_collection =
           [\<lparr>ud_id = OID alice_id, ud_username = ''alice'', ud_email = ''alice@example.com'',
             ud_password = ''h:pw-a'', ud_full_name = ''Alice A'', ud_created_at = 10\<rparr>],
         zakat_collection = []\<rparr>)
   \<and> register toy_hash (bob\<lparr>uc_email := ''alice@example.com''\<rparr>) 12 (OID bob_id) two_users
     = (Inl (HTTPException 400 ''Email already registered'' []), two_users)
   \<and> (\<exists>msg. register toy_hash (alice\<lparr>uc_email := ''other@example.com''\<rparr>) 12 (OID bob_id) two_users
     = (Inl (HTTPException 400 msg []), two_users))"
proof -
  note t = register_conflict_or_created
  have 1: "register toy_hash alice 10 (OID alice_id) empty_db
     = (Inr \<lparr>ur_id = str_oid (OID alice_id), ur_username = uc_username alice,
             ur_email = uc_email alice, ur_full_name = uc_full_name alice, ur_created_at = 10\<rparr>,
        empty_db\<lparr>users_collection := users_collection empty_db @
           [\<lparr>ud_id = OID alice_id, ud_username = uc_username alice, ud_email = uc_email alice,
             ud_password = toy_hash (uc_password alice), ud_full_name = uc_full_name alice,
             ud_created_at = 10\<rparr>]\<rparr>)"
  proof -
    have "\<forall>d \<in> set (users_collection empty_db).
            ud_email d \<noteq> uc_email alice \<and> ud_username d \<noteq> uc_username alice"
      by (simp add: empty_db_def)
    with t[of empty_db alice toy_hash 10 "OID alice_id"] show ?thesis by blast
  qed
  have 2: "register toy_hash (bob\<lparr>uc_email := ''alice@example.com''\<rparr>) 12 (OID bob_id) two_users
     = (Inl (HTTPException 400 ''Email already registered'' []), two_users)"
  proof -
    have "\<exists>d \<in> set (users_collection two_users).
            ud_email d = uc_email (bob\<lparr>uc_email := ''alice@example.com''\<rparr>)"
      by (simp add: two_users_eq)
    with t[of two_users "bob\<lparr>uc_email := ''alice@example.com''\<rparr>" toy_hash 12 "OID bob_id"]
    show ?thesis by blast
  qed
  have 3: "\<exists>msg. register toy_hash (alice\<lparr>uc_email := ''other@example.com''\<rparr>) 12 (OID bob_id) two_users
     = (Inl (HTTPException 400 msg []), two_users)"
  proof -
    have "\<exists>d \<in> set (users_collection two_users).
            ud_email d = uc_email (alice\<lparr>uc_email := ''other@example.com''\<rparr>)
            \<or> ud_username d = uc_username (alice\<lparr>uc_email := ''other@example.com''\<rparr>)"
      by (simp add: two_users_eq alice_def)
    with t[of two_users "alice\<lparr>uc_email := ''other@example.com''\<rparr>" toy_hash 12 "OID bob_id"]
    show ?thesis by blast
  qed
  from 1 have c1: "register toy_hash alice 10 (OID alice_id) empty_db
     = (Inr \<lparr>ur_id = alice_id, ur_username = ''alice'', ur_email = ''alice@example.com'',
             ur_full_name = ''Alice A'', ur_created_at = 10\<rparr>,
        \<lparr>users_collection =
           [\<lparr>ud_id = OID alice_id, ud_username = ''alice'', ud_email = ''alice@example.com'',
             ud_password = ''h:pw-a'', ud_full_name = ''Alice A'', ud_created_at = 10\<rparr>],
         zakat_collection = []\<rparr>)"
    by (simp add: alice_def empty_db_def toy_hash_def)
  from c1 2 3 show ?thesis by simp
qed

section \<open>C10: a caller without a user\<close>

text \<open>
  C10. When no stored user has the email resolved from the token, each of the six entry
  operations (create, list, get, update, delete, statistics) fails with 404 "User not found";
  the operations that write return the store as it was, and the outcome of the operations
  that read is the same for every content of the entry collection.
\<close>

theorem unknown_user_fails_first:
  assumes "\<forall>d \<in> set (users_collection s). ud_email d \<noteq> email"
    and "err = HTTPException 404 ''User not found'' []"
  shows "create_zakat_entry zakat email now_date now_created i s = (Inl err, s)
       \<and> get_zakat_entries email s = Inl err
       \<and> get_zakat_entry zakat_id email s = Inl err
       \<and> update_zakat_entry zakat_id upd email s = (Inl err, s)
       \<and> delete_zakat_entry zakat_id email s = (Inl err, s)
       \<and> get_zakat_statistics email s = Inl err
       \<and> get_zakat_entries email (s\<lparr>zakat_collection := other_entries\<rparr>) = Inl err
       \<and> get_zakat_entry zakat_id email (s\<lparr>zakat_collection := other_entries\<rparr>) = Inl err
       \<and> get_zakat_statistics email (s\<lparr>zakat_collection := other_entries\<rparr>) = Inl err"
proof -
  have n: "find_one (\<lambda>d. ud_email d = email) (users_collection s) = None"
    using assms(1) by (simp add: find_one_None_iff)
  show ?thesis
    by (simp add: n assms(2) user_not_found_def create_zakat_entry_def get_zakat_entries_def
        get_zakat_entry_def update_zakat_entry_def delete_zakat_entry_def
        get_zakat_statistics_def)
qed

text \<open>The theorem for an email nobody registered; the malformed id is not even parsed.\<close>

theorem unknown_user_fails_first_witness:
  "''carol@example.com'' \<notin> set (map ud_email (users_collection example_db))
   \<and> create_zakat_entry (new_entry 10 ''Cash'') ''carol@example.com'' 50 51 (OID (entry_id CHR ''5''))
        example_db = (Inl (HTTPException 404 ''User not found'' []), example_db)
   \<and> get_zakat_entries ''carol@example.com'' example_db = Inl (HTTPException 404 ''User not found'' [])
   \<and> get_zakat_entry ''not-an-id'' ''carol@example.com'' example_db
        = Inl (HTTPException 404 ''User not found'' [])
   \<and> update_zakat_entry (entry_id CHR ''1'') (amount_update 7) ''carol@example.com'' example_db
        = (Inl (HTTPException 404 ''User not found'' []), example_db)
   \<and> delete_zakat_entry (entry_id CHR ''1'') ''carol@example.com'' example_db
        = (Inl (HTTPException 404 ''User not found'' []), example_db)
   \<and> get_zakat_statistics ''carol@example.com'' example_db
        = Inl (HTTPException 404 ''User not found'' [])"
proof -
  have c: "\<forall>d \<in> set (users_collection example_db). ud_email d \<noteq> ''carol@example.com''"
    by (simp add: example_db_eq two_users_eq)
  note t = unknown_user_fails_first[OF c refl]
  have c': "''carol@example.com'' \<notin> set (map ud_email (users_collection example_db))"
    by (simp add: example_db_eq two_users_eq)
  from c' t[of "new_entry 10 ''Cash''" 50 51 "OID (entry_id CHR ''5'')" "''not-an-id''"]
    t[of "new_entry 10 ''Cash''" 50 51 "OID (entry_id CHR ''5'')" "entry_id CHR ''1''" "amount_update 7"]
  show ?thesis by blast
qed

end
